theory Spec2Isabelle
  imports Complex_Main "HOL-Library.Sublist"
begin

section \<open>Python text primitives\<close>

text \<open>
  A Python \<^verbatim>\<open>str\<close> is modelled as a \<^typ>\<open>string\<close> whose characters are read as the code
  points 0..255 (Latin-1), so that \<^verbatim>\<open>len\<close> is \<^const>\<open>length\<close>. On that range the tables
  below are those of \<^verbatim>\<open>str.isspace\<close>, \<^verbatim>\<open>str.isupper\<close>, \<^verbatim>\<open>str.lower\<close> and of the
  regular-expression classes \<^verbatim>\<open>\s\<close> and \<^verbatim>\<open>\w\<close>. A Python \<^verbatim>\<open>float\<close> is modelled as a
  \<^typ>\<open>real\<close>: the arithmetic is exact, rounding is not part of the model.
\<close>

definition isspace :: "char \<Rightarrow> bool" where
  "isspace c =
     (let n = (of_char c :: nat)
      in (9 \<le> n \<and> n \<le> 13) \<or> (28 \<le> n \<and> n \<le> 32) \<or> n = 133 \<or> n = 160)"

definition isupper :: "char \<Rightarrow> bool" where
  "isupper c =
     (let n = (of_char c :: nat)
      in (65 \<le> n \<and> n \<le> 90) \<or> (192 \<le> n \<and> n \<le> 214) \<or> (216 \<le> n \<and> n \<le> 222))"

definition lower_char :: "char \<Rightarrow> char" where
  "lower_char c = (if isupper c then char_of ((of_char c :: nat) + 32) else c)"

definition lower :: "string \<Rightarrow> string" where
  "lower s = map lower_char s"

definition strip :: "string \<Rightarrow> string" where
  "strip s = rev (dropWhile isspace (rev (dropWhile isspace s)))"

text \<open>\<^verbatim>\<open>s.split()\<close>: the maximal runs of non-whitespace characters, in order.\<close>

fun split_from :: "string \<Rightarrow> string \<Rightarrow> string list" where
  "split_from cur [] = (if cur = [] then [] else [cur])"
| "split_from cur (c # cs) =
     (if isspace c then (if cur = [] then split_from [] cs else cur # split_from [] cs)
      else split_from (cur @ [c]) cs)"

definition split_ws :: "string \<Rightarrow> string list" where
  "split_ws s = split_from [] s"

text \<open>\<^verbatim>\<open>s.split(sep)\<close> for a one-character separator: empty pieces are kept.\<close>

fun split_sep_from :: "char \<Rightarrow> string \<Rightarrow> string \<Rightarrow> string list" where
  "split_sep_from sep cur [] = [cur]"
| "split_sep_from sep cur (c # cs) =
     (if c = sep then cur # split_sep_from sep [] cs else split_sep_from sep (cur @ [c]) cs)"

definition split_sep :: "char \<Rightarrow> string \<Rightarrow> string list" where
  "split_sep sep s = split_sep_from sep [] s"

fun join :: "string \<Rightarrow> string list \<Rightarrow> string" where
  "join sep [] = []"
| "join sep [x] = x"
| "join sep (x # y # ys) = x @ sep @ join sep (y # ys)"

text \<open>The decimal numeral an f-string prints for a non-negative integer.\<close>

fun str_of_nat :: "nat \<Rightarrow> string" where
  "str_of_nat n =
     (if n < 10 then [char_of (48 + n)]
      else str_of_nat (n div 10) @ [char_of (48 + n mod 10)])"

section \<open>The semantic evaluator\<close>

datatype exn =
    RuntimeError string
  | AttributeError string
  | IndexError string
  | ValueError string
  | ProviderError string

text \<open>
  \<^verbatim>\<open>SentenceTransformer.encode\<close> is external: it maps a list of texts to one embedding per
  text, or raises.
\<close>

type_synonym encoder = "string list \<Rightarrow> exn + real list list"

record evaluator =
  model_name :: string
  model :: "encoder option"
  loaded :: bool

text \<open>
  The dictionary \<^verbatim>\<open>detailed_analysis\<close>. The keys \<^verbatim>\<open>length_analysis\<close>,
  \<^verbatim>\<open>keyword_coverage\<close> and \<^verbatim>\<open>semantic_coherence\<close> are present in every dictionary the
  evaluator builds; the other keys are present on one path only.
\<close>

record analysis =
  length_analysis :: string
  length_ratio :: "real option"
  keyword_coverage :: real
  keywords_found :: "string list option"
  keywords_missing :: "string list option"
  semantic_coherence :: real
  word_overlap :: "nat option"
  total_keywords :: "nat option"

record result =
  score :: real
  confidence :: real
  feedback :: string
  semantic_similarity :: real
  detailed_analysis :: analysis

text \<open>\<^verbatim>\<open>d.get(key, default)\<close> for a key that may be absent.\<close>

definition get_or :: "'a option \<Rightarrow> 'a \<Rightarrow> 'a" where
  "get_or v d = (case v of None \<Rightarrow> d | Some x \<Rightarrow> x)"

subsection \<open>Loading\<close>

definition test_sentences :: "string list" where
  "test_sentences = [''This is a test.'', ''This is another test.'']"

text \<open>
  \<^verbatim>\<open>load_model\<close>. The module constant \<^verbatim>\<open>TRANSFORMERS_AVAILABLE\<close> and the external
  constructor \<^verbatim>\<open>SentenceTransformer\<close> (which may raise) are parameters. The handler of
  the \<^verbatim>\<open>try\<close> sets the flag as well; a model assigned before the test encoding raised
  stays assigned.
\<close>

definition load_model ::
  "bool \<Rightarrow> (string \<Rightarrow> exn + encoder) \<Rightarrow> evaluator \<Rightarrow> evaluator" where
  "load_model TRANSFORMERS_AVAILABLE SentenceTransformer self =
     (if \<not> TRANSFORMERS_AVAILABLE then self\<lparr>loaded := True\<rparr>
      else case SentenceTransformer (model_name self) of
             Inl e \<Rightarrow> self\<lparr>loaded := True\<rparr>
           | Inr m \<Rightarrow>
               (let self1 = self\<lparr>model := Some m\<rparr>
                in case m test_sentences of
                     Inl e \<Rightarrow> self1\<lparr>loaded := True\<rparr>
                   | Inr embeddings \<Rightarrow> self1\<lparr>loaded := True\<rparr>))"

definition is_loaded :: "evaluator \<Rightarrow> bool" where
  "is_loaded self = loaded self"

subsection \<open>Keyword extraction and answer analysis\<close>

definition keyword_stop_words :: "string set" where
  "keyword_stop_words = set
     [''the'', ''a'', ''an'', ''and'', ''or'', ''but'', ''in'', ''on'', ''at'', ''to'', ''for'',
      ''of'', ''with'', ''by'', ''is'', ''are'', ''was'', ''were'', ''be'', ''been'', ''have'',
      ''has'', ''had'', ''do'', ''does'', ''did'', ''will'', ''would'', ''could'', ''should'',
      ''this'', ''that'', ''these'', ''those'', ''i'', ''you'', ''he'', ''she'', ''it'', ''we'',
      ''they'']"

definition extract_keywords :: "string \<Rightarrow> string set" where
  "extract_keywords text =
     (let words = split_ws (lower text)
      in set (filter (\<lambda>word. 2 < length word \<and> word \<notin> keyword_stop_words) words))"

text \<open>
  \<^verbatim>\<open>list(s)\<close> for a set \<open>s\<close> of tokens of a text: Python does not specify the order; the model
  enumerates the members in the order of their first occurrence among the text's tokens.
\<close>

definition list_of_set :: "string list \<Rightarrow> string set \<Rightarrow> string list" where
  "list_of_set tokens s = rev (remdups (rev (filter (\<lambda>w. w \<in> s) tokens)))"

definition analyze_answer_components :: "string \<Rightarrow> string \<Rightarrow> string \<Rightarrow> analysis" where
  "analyze_answer_components question correct_answer user_answer =
     (let correct_length = length correct_answer;
          user_length = length user_answer;
          ratio = real user_length / real (max correct_length 1);
          verdict =
            (if ratio < 0.3 then ''Answer is too short''
             else if ratio > 2.0 then ''Answer is too long''
             else ''Answer length is appropriate'');
          correct_keywords = extract_keywords correct_answer;
          user_keywords = extract_keywords user_answer;
          coverage =
            (if correct_keywords = {} then 0
             else real (card (correct_keywords \<inter> user_keywords)) / real (card correct_keywords));
          sentences = split_sep CHR ''.'' user_answer;
          coherence_score =
            min (real (length (filter (\<lambda>s. 10 < length (strip s)) sentences))
                 / real (max (length sentences) 1)) 1
      in \<lparr>length_analysis = verdict,
          length_ratio = Some ratio,
          keyword_coverage = coverage,
          keywords_found =
            Some (list_of_set (split_ws (lower correct_answer)) (correct_keywords \<inter> user_keywords)),
          keywords_missing =
            Some (list_of_set (split_ws (lower correct_answer)) (correct_keywords - user_keywords)),
          semantic_coherence = coherence_score,
          word_overlap = None,
          total_keywords = None\<rparr>)"

subsection \<open>The embedding path\<close>

text \<open>
  \<^verbatim>\<open>sklearn.metrics.pairwise.cosine_similarity\<close> on two rows (external): each row is
  divided by its Euclidean norm, a zero norm being replaced by 1, and the rows are
  multiplied; rows without features or of different widths are rejected.
\<close>

definition row_norm :: "real list \<Rightarrow> real" where
  "row_norm x = sqrt (sum_list (map (\<lambda>a. a * a) x))"

definition normalize_row :: "real list \<Rightarrow> real list" where
  "normalize_row x = (let n = row_norm x; d = (if n = 0 then 1 else n) in map (\<lambda>a. a / d) x)"

definition cosine_similarity :: "real list \<Rightarrow> real list \<Rightarrow> exn + real" where
  "cosine_similarity x y =
     (if x = [] then Inl (ValueError ''Found array with 0 feature(s)'')
      else if length x = length y
      then Inr (sum_list (map2 (\<lambda>a b. a * b) (normalize_row x) (normalize_row y)))
      else Inl (ValueError ''Incompatible dimension for X and Y matrices''))"

definition row :: "real list list \<Rightarrow> nat \<Rightarrow> exn + real list" where
  "row embeddings i =
     (if i < length embeddings then Inr (embeddings ! i)
      else Inl (IndexError ''index out of range''))"

definition calculate_final_score :: "real \<Rightarrow> analysis \<Rightarrow> string list option \<Rightarrow> real" where
  "calculate_final_score similarity analysis criteria =
     (let score' = similarity;
          coverage = keyword_coverage analysis;
          score' = score' * 0.7 + coverage * 0.3;
          ratio = get_or (length_ratio analysis) 1.0;
          score' =
            (if ratio < 0.3 then score' * 0.8
             else if ratio > 3.0 then score' * 0.9
             else score');
          coherence = semantic_coherence analysis;
          score' = score' * 0.9 + coherence * 0.1
      in min score' 1.0)"

text \<open>The first entry of \<^verbatim>\<open>feedback_parts\<close>: the overall assessment.\<close>

definition overall_assessment :: "real \<Rightarrow> string" where
  "overall_assessment score' =
     (if score' \<ge> 0.9
      then ''Excellent answer! You demonstrate a thorough understanding of the concept.''
      else if score' \<ge> 0.7
      then ''Good answer! You show a solid grasp of the main ideas.''
      else if score' \<ge> 0.5
      then ''Fair answer. You understand some key concepts but could improve.''
      else ''Your answer needs improvement. Please review the topic more carefully.'')"

definition generate_feedback :: "real \<Rightarrow> real \<Rightarrow> analysis \<Rightarrow> string" where
  "generate_feedback score' similarity analysis =
     (let feedback_parts = [overall_assessment score'];
          coverage = keyword_coverage analysis;
          missing_keywords = get_or (keywords_missing analysis) [];
          feedback_parts =
            (if coverage < 0.5
             then (if missing_keywords = [] then feedback_parts
                   else feedback_parts @
                     [''Consider including these important concepts: '' @
                      join '', '' (take 3 missing_keywords) @ ''.''])
             else feedback_parts);
          ratio = get_or (length_ratio analysis) 1.0;
          feedback_parts =
            (if ratio < 0.3
             then feedback_parts @ [''Your answer could be more detailed and comprehensive.'']
             else if ratio > 2.5
             then feedback_parts @ [''Try to be more concise while maintaining the key points.'']
             else feedback_parts);
          feedback_parts =
            (if similarity < 0.4
             then feedback_parts @
               [''Your answer doesn't closely match the expected response. Review the question and try again.'']
             else feedback_parts)
      in join '' '' feedback_parts)"

definition calculate_confidence ::
  "bool \<Rightarrow> evaluator \<Rightarrow> real \<Rightarrow> analysis \<Rightarrow> nat \<Rightarrow> real" where
  "calculate_confidence TRANSFORMERS_AVAILABLE self similarity analysis answer_length =
     (let confidence' = similarity * 80;
          confidence' =
            (if answer_length < 10 then confidence' * 0.7
             else if answer_length > 1000 then confidence' * 0.9
             else confidence');
          coverage = keyword_coverage analysis;
          confidence' = confidence' * 0.8 + coverage * 20;
          confidence' =
            (if TRANSFORMERS_AVAILABLE \<and> model self \<noteq> None then min confidence' 95
             else min confidence' 85)
      in max confidence' 10)"

text \<open>
  \<^verbatim>\<open>_evaluate_with_bert\<close>. Only the embedding step (encoding, row access, cosine) can raise;
  the later stages are total on strings.
\<close>

definition evaluate_with_bert ::
  "bool \<Rightarrow> evaluator \<Rightarrow> string \<Rightarrow> string \<Rightarrow> string \<Rightarrow> int \<Rightarrow> string list option
   \<Rightarrow> exn + result" where
  "evaluate_with_bert TRANSFORMERS_AVAILABLE self question correct_answer user_answer
       max_marks criteria =
     (case model self of
        None \<Rightarrow> Inl (AttributeError ''NoneType object has no attribute encode'')
      | Some encode \<Rightarrow>
     (case encode [correct_answer, user_answer] of
        Inl e \<Rightarrow> Inl e
      | Inr embeddings \<Rightarrow>
     (case row embeddings 0 of
        Inl e \<Rightarrow> Inl e
      | Inr e0 \<Rightarrow>
     (case row embeddings 1 of
        Inl e \<Rightarrow> Inl e
      | Inr e1 \<Rightarrow>
     (case cosine_similarity e0 e1 of
        Inl e \<Rightarrow> Inl e
      | Inr similarity \<Rightarrow>
          (let analysis = analyze_answer_components question correct_answer user_answer;
               score' = calculate_final_score similarity analysis criteria;
               feedback' = generate_feedback score' similarity analysis;
               confidence' =
                 calculate_confidence TRANSFORMERS_AVAILABLE self similarity analysis
                   (length user_answer)
           in Inr \<lparr>score = score',
                   confidence = confidence',
                   feedback = feedback',
                   semantic_similarity = similarity,
                   detailed_analysis = analysis\<rparr>))))))"

subsection \<open>The fallback path\<close>

definition fallback_stop_words :: "string set" where
  "fallback_stop_words = set
     [''the'', ''a'', ''an'', ''and'', ''or'', ''but'', ''in'', ''on'', ''at'', ''to'', ''for'',
      ''of'', ''with'', ''by'', ''is'', ''are'', ''was'', ''were'']"

definition fallback_feedback :: "real \<Rightarrow> string" where
  "fallback_feedback score' =
     (if score' \<ge> 0.8 then ''Excellent answer! Shows comprehensive understanding.''
      else if score' \<ge> 0.6 then ''Good answer with most key concepts covered.''
      else if score' \<ge> 0.4 then ''Fair answer but missing some important points.''
      else ''Answer needs significant improvement. Please review the topic.'')"

definition evaluate_fallback ::
  "string \<Rightarrow> string \<Rightarrow> string \<Rightarrow> int \<Rightarrow> string list option \<Rightarrow> result" where
  "evaluate_fallback question correct_answer user_answer max_marks criteria =
     (let correct_words = set (split_ws (lower correct_answer));
          user_words = set (split_ws (lower user_answer));
          correct_words = correct_words - fallback_stop_words;
          user_words = user_words - fallback_stop_words;
          overlap =
            (if card correct_words = 0 then 0.0
             else real (card (correct_words \<inter> user_words)) / real (card correct_words));
          ratio = min (real (length user_answer) / real (max (length correct_answer) 1)) 1.0;
          similarity = overlap * 0.7 + ratio * 0.3;
          analysis =
            \<lparr>length_analysis =
               ''Answer length: '' @ str_of_nat (length user_answer) @
               '' chars (expected ~'' @ str_of_nat (length correct_answer) @ '')'',
             length_ratio = None,
             keyword_coverage = overlap,
             keywords_found = None,
             keywords_missing = None,
             semantic_coherence = similarity,
             word_overlap = Some (card (correct_words \<inter> user_words)),
             total_keywords = Some (card correct_words)\<rparr>;
          score' = min similarity 1.0;
          feedback' = fallback_feedback score';
          confidence' = min (score' * 80) 85
      in \<lparr>score = score',
          confidence = confidence',
          feedback = feedback',
          semantic_similarity = similarity,
          detailed_analysis = analysis\<rparr>)"

subsection \<open>The entry point\<close>

definition empty_answer_result :: result where
  "empty_answer_result =
     \<lparr>score = 0.0,
      confidence = 100.0,
      feedback = ''No answer provided.'',
      semantic_similarity = 0.0,
      detailed_analysis =
        \<lparr>length_analysis = ''Empty answer'',
         length_ratio = None,
         keyword_coverage = 0.0,
         keywords_found = None,
         keywords_missing = None,
         semantic_coherence = 0.0,
         word_overlap = None,
         total_keywords = None\<rparr>\<rparr>"

text \<open>
  \<^verbatim>\<open>evaluate\<close>. The \<^verbatim>\<open>try\<close> encloses the choice of the path and the whole of the chosen
  path; its handler runs the fallback path, outside any handler.
\<close>

definition evaluate ::
  "bool \<Rightarrow> evaluator \<Rightarrow> string \<Rightarrow> string \<Rightarrow> string \<Rightarrow> int \<Rightarrow> string list option
   \<Rightarrow> exn + result" where
  "evaluate TRANSFORMERS_AVAILABLE self question correct_answer user_answer max_marks criteria =
     (if \<not> loaded self then Inl (RuntimeError ''Model not loaded. Call load_model() first.'')
      else if strip user_answer = [] then Inr empty_answer_result
      else
        (case (if TRANSFORMERS_AVAILABLE \<and> model self \<noteq> None
               then evaluate_with_bert TRANSFORMERS_AVAILABLE self question correct_answer
                      user_answer max_marks criteria
               else Inr (evaluate_fallback question correct_answer user_answer max_marks
                      criteria)) of
           Inr r \<Rightarrow> Inr r
         | Inl e \<Rightarrow>
             Inr (evaluate_fallback question correct_answer user_answer max_marks criteria)))"

subsection \<open>Which path produced a result\<close>

text \<open>
  The fallback path produces the result when no model is used, or when the embedding
  path raised and the handler ran.
\<close>

definition fallback_used ::
  "bool \<Rightarrow> evaluator \<Rightarrow> string \<Rightarrow> string \<Rightarrow> string \<Rightarrow> int \<Rightarrow> string list option
   \<Rightarrow> bool" where
  "fallback_used TRANSFORMERS_AVAILABLE self question correct_answer user_answer max_marks
       criteria =
     (if TRANSFORMERS_AVAILABLE \<and> model self \<noteq> None
      then isl (evaluate_with_bert TRANSFORMERS_AVAILABLE self question correct_answer
                  user_answer max_marks criteria)
      else True)"

section \<open>The text processor\<close>

text \<open>
  The stop-word set of a \<^verbatim>\<open>TextProcessor\<close> is a field of the object (the list of an
  external corpus when it is installed), so it is a parameter here. \<open>default_stop_words\<close>
  is the table the constructor uses otherwise.
\<close>

definition default_stop_words :: "string set" where
  "default_stop_words = set
     [''the'', ''a'', ''an'', ''and'', ''or'', ''but'', ''in'', ''on'', ''at'', ''to'', ''for'',
      ''of'', ''with'', ''by'', ''is'', ''are'', ''was'', ''were'', ''be'', ''been'', ''have'',
      ''has'', ''had'', ''do'', ''does'', ''did'', ''will'', ''would'', ''could'', ''should'',
      ''this'', ''that'', ''these'', ''those'', ''i'', ''you'', ''he'', ''she'', ''it'', ''we'',
      ''they'', ''me'', ''him'', ''her'', ''us'', ''them'', ''my'', ''your'', ''his'', ''her'',
      ''its'', ''our'', ''their'']"

definition get_common_words :: "string set" where
  "get_common_words = set
     [''about'', ''after'', ''again'', ''against'', ''all'', ''also'', ''any'', ''because'',
      ''been'', ''before'', ''being'', ''between'', ''both'', ''but'', ''came'', ''can'',
      ''come'', ''could'', ''did'', ''each'', ''even'', ''every'', ''first'', ''from'',
      ''get'', ''got'', ''had'', ''has'', ''have'', ''here'', ''how'', ''into'', ''just'',
      ''like'', ''made'', ''make'', ''many'', ''may'', ''more'', ''most'', ''new'', ''now'',
      ''only'', ''other'', ''over'', ''said'', ''same'', ''see'', ''some'', ''such'',
      ''take'', ''than'', ''them'', ''through'', ''time'', ''two'', ''up'', ''use'',
      ''very'', ''want'', ''water'', ''way'', ''well'', ''went'', ''were'', ''what'',
      ''when'', ''where'', ''which'', ''while'', ''who'', ''why'', ''work'', ''would'']"

text \<open>The class \<^verbatim>\<open>\w\<close>: alphanumeric characters and the underscore.\<close>

definition is_word_char :: "char \<Rightarrow> bool" where
  "is_word_char c =
     (let n = (of_char c :: nat)
      in (48 \<le> n \<and> n \<le> 57) \<or> (65 \<le> n \<and> n \<le> 90) \<or> n = 95 \<or> (97 \<le> n \<and> n \<le> 122) \<or>
         n = 170 \<or> n = 178 \<or> n = 179 \<or> n = 181 \<or> n = 185 \<or> n = 186 \<or>
         (188 \<le> n \<and> n \<le> 190) \<or> (192 \<le> n \<and> n \<le> 214) \<or> (216 \<le> n \<and> n \<le> 246) \<or>
         248 \<le> n)"

text \<open>The class \<^verbatim>\<open>[.,!?;:-]\<close>.\<close>

definition is_basic_punct :: "char \<Rightarrow> bool" where
  "is_basic_punct c = (c \<in> set ''.,!?;:-'')"

text \<open>
  \<^verbatim>\<open>re.sub('[class]+', ' ', s)\<close>: every maximal run of characters of the class becomes one
  space. The flag says whether the previous character was in the class.
\<close>

fun sub_runs :: "(char \<Rightarrow> bool) \<Rightarrow> bool \<Rightarrow> string \<Rightarrow> string" where
  "sub_runs p in_run [] = []"
| "sub_runs p in_run (c # cs) =
     (if p c then (if in_run then sub_runs p True cs else CHR '' '' # sub_runs p True cs)
      else c # sub_runs p False cs)"

definition preprocess :: "string set \<Rightarrow> string \<Rightarrow> bool \<Rightarrow> string" where
  "preprocess stop_words text remove_stopwords =
     (if text = [] then []
      else
        (let text = lower text;
             text = strip (sub_runs isspace False text);
             text = filter (\<lambda>c. is_word_char c \<or> isspace c \<or> is_basic_punct c) text;
             text = sub_runs is_basic_punct False text;
             text =
               (if remove_stopwords
                then join '' '' (filter (\<lambda>word. word \<notin> stop_words) (split_ws text))
                else text)
         in strip text))"

text \<open>The loop that fills \<^verbatim>\<open>important_terms\<close>; Python's \<^verbatim>\<open>or\<close> tests left to right.\<close>

fun important_terms :: "string set \<Rightarrow> string list \<Rightarrow> string list" where
  "important_terms stop_words [] = []"
| "important_terms stop_words (word # words) =
     (if length word \<le> 2 \<or> word \<in> stop_words then important_terms stop_words words
      else if 4 < length word then word # important_terms stop_words words
      else if list_ex isupper word then word # important_terms stop_words words
      else if word \<in> get_common_words then important_terms stop_words words
      else word # important_terms stop_words words)"

text \<open>The loop that removes duplicates, keeping the first occurrence.\<close>

fun unique_terms :: "string set \<Rightarrow> string list \<Rightarrow> string list" where
  "unique_terms seen [] = []"
| "unique_terms seen (trm # trms) =
     (if trm \<in> seen then unique_terms seen trms
      else trm # unique_terms (insert trm seen) trms)"

definition extract_important_terms :: "string set \<Rightarrow> string \<Rightarrow> string list" where
  "extract_important_terms stop_words text =
     (if text = [] then []
      else
        (let processed = preprocess stop_words text False;
             words = split_ws processed
         in take 10 (unique_terms {} (important_terms stop_words words))))"

section \<open>The specification's formulas\<close>

text \<open>
  The score composition as the specification words it: the weighted steps in order, then
  the clamp to the unit interval.
\<close>

definition spec_weighted_steps :: "real \<Rightarrow> real \<Rightarrow> real \<Rightarrow> real \<Rightarrow> real" where
  "spec_weighted_steps semanticSimilarity keywordCoverage lengthRatio coherence =
     (let base = semanticSimilarity;
          base = base * 0.7 + keywordCoverage * 0.3;
          base =
            (if lengthRatio < 0.3 then base * 0.8
             else if lengthRatio > 3.0 then base * 0.9
             else base)
      in base * 0.9 + coherence * 0.1)"

definition spec_final_score :: "real \<Rightarrow> real \<Rightarrow> real \<Rightarrow> real \<Rightarrow> real" where
  "spec_final_score semanticSimilarity keywordCoverage lengthRatio coherence =
     max 0 (min 1 (spec_weighted_steps semanticSimilarity keywordCoverage lengthRatio coherence))"

text \<open>
  The fallback similarity as the specification words it: recall of the reference's
  tokens (lowercased, split at whitespace, stop words removed, short tokens kept),
  blended with the capped length ratio.
\<close>

definition spec_tokens :: "string \<Rightarrow> string set" where
  "spec_tokens text = Set.filter (\<lambda>w. w \<notin> fallback_stop_words) (set (split_ws (lower text)))"

definition spec_word_overlap_ratio :: "string \<Rightarrow> string \<Rightarrow> real" where
  "spec_word_overlap_ratio reference candidate =
     (if spec_tokens reference = {} then 0
      else real (card (spec_tokens reference \<inter> spec_tokens candidate))
           / real (card (spec_tokens reference)))"

definition spec_fallback_similarity :: "string \<Rightarrow> string \<Rightarrow> real" where
  "spec_fallback_similarity reference candidate =
     0.7 * spec_word_overlap_ratio reference candidate
     + 0.3 * min (real (length candidate) / real (max (length reference) 1)) 1"

section \<open>Evaluators and providers used in the examples\<close>

definition no_model_evaluator :: evaluator where
  "no_model_evaluator = \<lparr>model_name = ''all-MiniLM-L6-v2'', model = None, loaded = True\<rparr>"

definition unloaded_evaluator :: evaluator where
  "unloaded_evaluator = \<lparr>model_name = ''all-MiniLM-L6-v2'', model = None, loaded = False\<rparr>"

definition failing_encoder :: encoder where
  "failing_encoder = (\<lambda>texts. Inl (ProviderError ''inference failed''))"

definition aligned_encoder :: encoder where
  "aligned_encoder = (\<lambda>texts. Inr [[1], [1]])"

definition opposed_encoder :: encoder where
  "opposed_encoder = (\<lambda>texts. Inr [[1], [-1]])"

definition evaluator_with :: "encoder \<Rightarrow> evaluator" where
  "evaluator_with encode =
     \<lparr>model_name = ''all-MiniLM-L6-v2'', model = Some encode, loaded = True\<rparr>"

definition failing_constructor :: "string \<Rightarrow> exn + encoder" where
  "failing_constructor name = Inl (ProviderError ''model not found'')"

section \<open>Properties\<close>

subsection \<open>The entry checks and the handler\<close>


lemma strip_eq_Nil_iff: "strip s = [] \<longleftrightarrow> list_all isspace s"
proof
  assume "strip s = []"
  then have a: "\<forall>x\<in>set (dropWhile isspace s). isspace x"
    by (simp add: strip_def dropWhile_eq_Nil_conv)
  have "dropWhile isspace s = []"
  proof (rule ccontr)
    assume n: "dropWhile isspace s \<noteq> []"
    then have "\<not> isspace (hd (dropWhile isspace s))" by (rule hd_dropWhile)
    moreover have "hd (dropWhile isspace s) \<in> set (dropWhile isspace s)" using n by simp
    ultimately show False using a by blast
  qed
  then show "list_all isspace s"
    by (simp add: dropWhile_eq_Nil_conv list_all_iff)
next
  assume "list_all isspace s"
  then have d: "dropWhile isspace s = []"
    by (simp add: dropWhile_eq_Nil_conv list_all_iff)
  show "strip s = []" unfolding strip_def d by simp
qed

lemma evaluate_nonblank:
  assumes "loaded self" and "strip user_answer \<noteq> []"
  shows "evaluate ta self q ca user_answer mm cr =
         (if fallback_used ta self q ca user_answer mm cr
          then Inr (evaluate_fallback q ca user_answer mm cr)
          else evaluate_with_bert ta self q ca user_answer mm cr)"
  using assms
  by (auto simp: evaluate_def fallback_used_def split: sum.splits)

lemma load_model_loaded: "loaded (load_model ta ctor self)"
  by (simp add: load_model_def Let_def split: sum.splits)

lemma evaluate_loaded_returns:
  assumes "loaded self"
  shows "\<not> isl (evaluate ta self q ca ua mm cr)"
  using assms by (simp add: evaluate_def split: sum.splits)

text \<open>
  C10. While the flag \<^verbatim>\<open>_loaded\<close> is false, \<^verbatim>\<open>evaluate\<close> raises the RuntimeError for every
  input, a blank candidate included. \<^verbatim>\<open>load_model\<close> sets the flag on every branch, also
  when the model cannot be loaded, and after it \<^verbatim>\<open>evaluate\<close> returns a result.
\<close>

theorem evaluate_requires_load_model:
  "(\<not> loaded self \<longrightarrow>
      evaluate ta self q ca ua mm cr =
        Inl (RuntimeError ''Model not loaded. Call load_model() first.''))
   \<and> loaded (load_model ta ctor self)
   \<and> evaluate ta (load_model ta ctor self) q ca ua mm cr \<noteq>
        Inl (RuntimeError ''Model not loaded. Call load_model() first.'')
   \<and> \<not> isl (evaluate ta (load_model ta ctor self) q ca ua mm cr)"
proof -
  have l: "loaded (load_model ta ctor self)" by (rule load_model_loaded)
  have r: "\<not> isl (evaluate ta (load_model ta ctor self) q ca ua mm cr)"
    using l by (rule evaluate_loaded_returns)
  then have "evaluate ta (load_model ta ctor self) q ca ua mm cr \<noteq>
        Inl (RuntimeError ''Model not loaded. Call load_model() first.'')"
    by auto
  with l r show ?thesis by (simp add: evaluate_def)
qed

theorem evaluate_requires_load_model_witness:
  "\<not> loaded unloaded_evaluator
   \<and> evaluate True unloaded_evaluator ''q'' ''cat'' ''   '' 5 None =
       Inl (RuntimeError ''Model not loaded. Call load_model() first.'')
   \<and> loaded (load_model True failing_constructor unloaded_evaluator)
   \<and> \<not> isl (evaluate True (load_model True failing_constructor unloaded_evaluator)
               ''q'' ''cat'' ''   '' 5 None)"
  using evaluate_requires_load_model
    [of unloaded_evaluator True "''q''" "''cat''" "''   ''" 5 None failing_constructor]
  by (simp add: unloaded_evaluator_def)

text \<open>
  C5. When the embedding path raises, \<^verbatim>\<open>evaluate\<close> does not raise: it returns the complete
  result of the fallback path.
\<close>

theorem embedding_error_demoted_to_fallback:
  assumes "loaded self" and "strip user_answer \<noteq> []"
    and "TRANSFORMERS_AVAILABLE" and "model self = Some encode"
    and "evaluate_with_bert TRANSFORMERS_AVAILABLE self question correct_answer user_answer
           max_marks criteria = Inl e"
  shows "evaluate TRANSFORMERS_AVAILABLE self question correct_answer user_answer max_marks
           criteria =
         Inr (evaluate_fallback question correct_answer user_answer max_marks criteria)"
  using assms by (simp add: evaluate_def)

lemma failing_encoder_raises:
  "evaluate_with_bert True (evaluator_with failing_encoder) q ca ua mm cr =
     Inl (ProviderError ''inference failed'')"
  by (simp add: evaluate_with_bert_def evaluator_with_def failing_encoder_def)

lemma strip_x: "strip ''x'' = ''x''"
  by (simp add: strip_def isspace_def)

theorem embedding_error_demoted_to_fallback_witness:
  "loaded (evaluator_with failing_encoder) \<and> strip ''x'' \<noteq> [] \<and>
   model (evaluator_with failing_encoder) = Some failing_encoder \<and>
   evaluate_with_bert True (evaluator_with failing_encoder) ''q'' ''cat'' ''x'' 5 None =
     Inl (ProviderError ''inference failed'') \<and>
   evaluate True (evaluator_with failing_encoder) ''q'' ''cat'' ''x'' 5 None =
     Inr (evaluate_fallback ''q'' ''cat'' ''x'' 5 None)"
proof -
  have h1: "loaded (evaluator_with failing_encoder)" by (simp add: evaluator_with_def)
  have h2: "strip ''x'' \<noteq> []" by (simp add: strip_x)
  have h3: "model (evaluator_with failing_encoder) = Some failing_encoder"
    by (simp add: evaluator_with_def)
  have h4: "evaluate_with_bert True (evaluator_with failing_encoder) ''q'' ''cat'' ''x'' 5 None =
     Inl (ProviderError ''inference failed'')" by (rule failing_encoder_raises)
  show ?thesis
    using h1 h2 h3 h4 embedding_error_demoted_to_fallback [OF h1 h2 TrueI h3 h4]
    by simp
qed


text \<open>
  C1. With the evaluator loaded, a candidate answer that is empty or consists of
  whitespace only yields the fixed zero-score result, whatever the question, the reference,
  the criteria and the model are: no component is consulted.
\<close>

theorem blank_answer_fixed_result:
  assumes "loaded self" and "list_all isspace user_answer"
  shows "evaluate TRANSFORMERS_AVAILABLE self question correct_answer user_answer max_marks
           criteria =
         Inr \<lparr>score = 0, confidence = 100, feedback = ''No answer provided.'',
              semantic_similarity = 0,
              detailed_analysis =
                \<lparr>length_analysis = ''Empty answer'', length_ratio = None, keyword_coverage = 0,
                 keywords_found = None, keywords_missing = None, semantic_coherence = 0,
                 word_overlap = None, total_keywords = None\<rparr>\<rparr>"
  using assms by (simp add: evaluate_def strip_eq_Nil_iff empty_answer_result_def)

theorem blank_answer_fixed_result_witness:
  "loaded (evaluator_with failing_encoder) \<and>
   list_all isspace [CHR '' '', CHR 0x09, CHR 0x0A] \<and>
   evaluate True (evaluator_with failing_encoder)
     ''What is a cat?'' ''An animal'' [CHR '' '', CHR 0x09, CHR 0x0A] 5 None =
     Inr \<lparr>score = 0, confidence = 100, feedback = ''No answer provided.'',
              semantic_similarity = 0,
              detailed_analysis =
                \<lparr>length_analysis = ''Empty answer'', length_ratio = None, keyword_coverage = 0,
                 keywords_found = None, keywords_missing = None, semantic_coherence = 0,
                 word_overlap = None, total_keywords = None\<rparr>\<rparr>"
proof -
  have h1: "loaded (evaluator_with failing_encoder)"
    by (simp add: evaluator_with_def)
  have h2: "list_all isspace [CHR '' '', CHR 0x09, CHR 0x0A]"
    by (simp add: isspace_def)
  show ?thesis
    using h1 h2
      blank_answer_fixed_result [OF h1 h2, of True "''What is a cat?''" "''An animal''" 5 None]
    by simp
qed

subsection \<open>The fallback similarity\<close>

lemma spec_tokens_eq:
  "spec_tokens text = set (split_ws (lower text)) - fallback_stop_words"
  by (auto simp: spec_tokens_def)

lemma fallback_similarity_spec:
  "semantic_similarity (evaluate_fallback q ca ua mm cr) = spec_fallback_similarity ca ua"
proof -
  have fin: "finite (spec_tokens ca)" by (simp add: spec_tokens_eq)
  then have e: "(card (spec_tokens ca) = 0) = (spec_tokens ca = {})" by simp
  show ?thesis
    unfolding evaluate_fallback_def spec_fallback_similarity_def spec_word_overlap_ratio_def
      Let_def spec_tokens_eq [symmetric]
    by (simp add: e)
qed

text \<open>
  C7. On the fallback path the returned semantic similarity is the specification's
  blend of reference recall and capped length ratio.
\<close>

theorem fallback_similarity_formula:
  assumes "loaded self" and "strip user_answer \<noteq> []"
    and "fallback_used TRANSFORMERS_AVAILABLE self question correct_answer user_answer
           max_marks criteria"
  shows "evaluate TRANSFORMERS_AVAILABLE self question correct_answer user_answer max_marks
           criteria =
           Inr (evaluate_fallback question correct_answer user_answer max_marks criteria)
         \<and> semantic_similarity
             (evaluate_fallback question correct_answer user_answer max_marks criteria) =
           spec_fallback_similarity correct_answer user_answer"
  using assms by (simp add: evaluate_nonblank fallback_similarity_spec)

lemma photosynthesis_nonblank:
  "strip ''Plants convert light into chemical energy'' \<noteq> []"
  by (simp add: strip_def isspace_def)

lemma photosynthesis_similarity:
  "spec_fallback_similarity ''Photosynthesis converts light energy into chemical energy''
     ''Plants convert light into chemical energy'' = 389 / 570"
  by code_simp

theorem fallback_similarity_formula_witness:
  "loaded no_model_evaluator \<and>
   strip ''Plants convert light into chemical energy'' \<noteq> [] \<and>
   fallback_used True no_model_evaluator ''q''
     ''Photosynthesis converts light energy into chemical energy''
     ''Plants convert light into chemical energy'' 5 None \<and>
   evaluate True no_model_evaluator ''q''
     ''Photosynthesis converts light energy into chemical energy''
     ''Plants convert light into chemical energy'' 5 None =
     Inr (evaluate_fallback ''q''
       ''Photosynthesis converts light energy into chemical energy''
       ''Plants convert light into chemical energy'' 5 None) \<and>
   semantic_similarity (evaluate_fallback ''q''
       ''Photosynthesis converts light energy into chemical energy''
       ''Plants convert light into chemical energy'' 5 None) = 389 / 570"
proof -
  have h1: "loaded no_model_evaluator" by (simp add: no_model_evaluator_def)
  have h3: "fallback_used True no_model_evaluator ''q''
     ''Photosynthesis converts light energy into chemical energy''
     ''Plants convert light into chemical energy'' 5 None"
    by (simp add: fallback_used_def no_model_evaluator_def)
  show ?thesis
    using h1 h3 photosynthesis_nonblank photosynthesis_similarity
      fallback_similarity_formula [OF h1 photosynthesis_nonblank h3]
    by simp
qed


subsection \<open>Bounds on the fallback path\<close>

lemma fallback_overlap_bounds:
  fixes A B :: "string set"
  assumes "finite A"
  shows "0 \<le> (if card A = 0 then 0 else real (card (A \<inter> B)) / real (card A))"
    and "(if card A = 0 then 0 else real (card (A \<inter> B)) / real (card A)) \<le> 1"
proof -
  show "0 \<le> (if card A = 0 then 0 else real (card (A \<inter> B)) / real (card A))" by simp
  have "card (A \<inter> B) \<le> card A" using assms by (simp add: card_mono)
  then show "(if card A = 0 then 0 else real (card (A \<inter> B)) / real (card A)) \<le> 1"
    by (simp add: divide_le_eq_1)
qed

lemma fallback_similarity_bounds:
  "0 \<le> semantic_similarity (evaluate_fallback q ca ua mm cr)"
  "semantic_similarity (evaluate_fallback q ca ua mm cr) \<le> 1"
proof -
  define A where "A = set (split_ws (lower ca)) - fallback_stop_words"
  define B where "B = set (split_ws (lower ua)) - fallback_stop_words"
  define ov where "ov = (if card A = 0 then 0 else real (card (A \<inter> B)) / real (card A))"
  define ra where "ra = min (real (length ua) / real (max (length ca) 1)) 1"
  have fin: "finite A" by (simp add: A_def)
  have ov: "0 \<le> ov" "ov \<le> 1"
    unfolding ov_def using fallback_overlap_bounds [OF fin, of B] by auto
  have ra: "0 \<le> ra" "ra \<le> 1" by (simp_all add: ra_def)
  have s: "semantic_similarity (evaluate_fallback q ca ua mm cr) = ov * 0.7 + ra * 0.3"
    unfolding evaluate_fallback_def Let_def ov_def ra_def A_def B_def
    by (simp only: result.select_convs) simp
  show "0 \<le> semantic_similarity (evaluate_fallback q ca ua mm cr)"
    unfolding s using ov ra by simp
  have "ov * 0.7 + ra * 0.3 \<le> 1 * 0.7 + 1 * 0.3"
    using ov ra by (intro add_mono mult_right_mono) simp_all
  then show "semantic_similarity (evaluate_fallback q ca ua mm cr) \<le> 1"
    unfolding s by simp
qed

lemma fallback_score_eq:
  "score (evaluate_fallback q ca ua mm cr) =
     min (semantic_similarity (evaluate_fallback q ca ua mm cr)) 1"
  unfolding evaluate_fallback_def Let_def by (simp only: result.select_convs)

lemma fallback_confidence_eq:
  "confidence (evaluate_fallback q ca ua mm cr) =
     min (score (evaluate_fallback q ca ua mm cr) * 80) 85"
  unfolding evaluate_fallback_def Let_def by (simp only: result.select_convs)

lemma fallback_feedback_eq:
  "feedback (evaluate_fallback q ca ua mm cr) =
     fallback_feedback (score (evaluate_fallback q ca ua mm cr))"
  unfolding evaluate_fallback_def Let_def by (simp only: result.select_convs)

lemma fallback_score_bounds:
  "0 \<le> score (evaluate_fallback q ca ua mm cr)"
  "score (evaluate_fallback q ca ua mm cr) \<le> 1"
  using fallback_similarity_bounds [of q ca ua mm cr]
  by (simp_all add: fallback_score_eq)

lemma fallback_confidence_bounds:
  "0 \<le> confidence (evaluate_fallback q ca ua mm cr)"
  "confidence (evaluate_fallback q ca ua mm cr) \<le> 80"
  using fallback_score_bounds [of q ca ua mm cr]
  by (simp_all add: fallback_confidence_eq)

subsection \<open>The result of the embedding path\<close>

lemma evaluate_with_bert_result:
  assumes "evaluate_with_bert ta self q ca ua mm cr = Inr r"
  shows "detailed_analysis r = analyze_answer_components q ca ua"
    and "score r = calculate_final_score (semantic_similarity r) (detailed_analysis r) cr"
    and "feedback r = generate_feedback (score r) (semantic_similarity r) (detailed_analysis r)"
    and "confidence r =
           calculate_confidence ta self (semantic_similarity r) (detailed_analysis r) (length ua)"
  using assms
  by (auto simp: evaluate_with_bert_def Let_def split: option.splits sum.splits)

lemma calculate_confidence_bounds:
  assumes "ta" and "model self \<noteq> None"
  shows "10 \<le> calculate_confidence ta self s a n"
    and "calculate_confidence ta self s a n \<le> 95"
  using assms by (simp_all add: calculate_confidence_def Let_def)

lemma calculate_final_score_le: "calculate_final_score s a cr \<le> 1"
  by (simp add: calculate_final_score_def Let_def)

lemma evaluate_with_bert_encoded:
  assumes "model self = Some encode"
    and "encode [ca, ua] = Inr [e0, e1]"
    and "cosine_similarity e0 e1 = Inr s"
  shows "evaluate_with_bert ta self q ca ua mm cr =
     Inr \<lparr>score = calculate_final_score s (analyze_answer_components q ca ua) cr,
          confidence = calculate_confidence ta self s (analyze_answer_components q ca ua) (length ua),
          feedback = generate_feedback (calculate_final_score s (analyze_answer_components q ca ua) cr)
                       s (analyze_answer_components q ca ua),
          semantic_similarity = s,
          detailed_analysis = analyze_answer_components q ca ua\<rparr>"
  using assms by (simp add: evaluate_with_bert_def row_def Let_def)


subsection \<open>Worked evaluations\<close>

lemma strip_bad: "strip ''bad'' = ''bad''"
  by (simp add: strip_def isspace_def)

lemma fallback_cat_x:
  "evaluate_fallback ''q'' ''cat'' ''x'' 5 None =
     \<lparr>score = 1 / 10, confidence = 8,
      feedback = ''Answer needs significant improvement. Please review the topic.'',
      semantic_similarity = 1 / 10,
      detailed_analysis =
        \<lparr>length_analysis = ''Answer length: 1 chars (expected ~3)'',
         length_ratio = None, keyword_coverage = 0, keywords_found = None,
         keywords_missing = None, semantic_coherence = 1 / 10,
         word_overlap = Some 0, total_keywords = Some 1\<rparr>\<rparr>"
  by code_simp

lemma analysis_good_bad:
  "analyze_answer_components ''q'' ''good'' ''bad'' =
     \<lparr>length_analysis = ''Answer length is appropriate'',
      length_ratio = Some (3 / 4), keyword_coverage = 0,
      keywords_found = Some [], keywords_missing = Some [''good''],
      semantic_coherence = 0, word_overlap = None, total_keywords = None\<rparr>"
  by code_simp

lemma cosine_opposed: "cosine_similarity [1] [- 1] = Inr (- 1)"
  by (simp add: cosine_similarity_def normalize_row_def row_norm_def)

lemma cosine_aligned: "cosine_similarity [1] [1] = Inr 1"
  by (simp add: cosine_similarity_def normalize_row_def row_norm_def)

lemma bert_good_bad:
  "evaluate_with_bert True (evaluator_with opposed_encoder) ''q'' ''good'' ''bad'' 5 None =
     Inr \<lparr>score = - (63 / 100), confidence = 10,
          feedback = generate_feedback (- (63 / 100)) (- 1)
                       (analyze_answer_components ''q'' ''good'' ''bad''),
          semantic_similarity = - 1,
          detailed_analysis = analyze_answer_components ''q'' ''good'' ''bad''\<rparr>"
proof -
  have m: "model (evaluator_with opposed_encoder) = Some opposed_encoder"
    by (simp add: evaluator_with_def)
  have e: "opposed_encoder [''good'', ''bad''] = Inr [[1], [- 1]]"
    by (simp add: opposed_encoder_def)
  have s: "calculate_final_score (- 1) (analyze_answer_components ''q'' ''good'' ''bad'') None
             = - (63 / 100)"
    unfolding analysis_good_bad by (simp add: calculate_final_score_def get_or_def)
  have c: "calculate_confidence True (evaluator_with opposed_encoder) (- 1)
             (analyze_answer_components ''q'' ''good'' ''bad'') (length ''bad'') = 10"
    unfolding analysis_good_bad by (simp add: calculate_confidence_def m)
  show ?thesis
    unfolding evaluate_with_bert_encoded [OF m e cosine_opposed] s c by simp
qed

text \<open>
  C2. The embedding path returns the cosine as it is and caps the score from above only:
  with opposed embeddings both the similarity and the score are negative.
\<close>

theorem negative_cosine_gives_negative_score:
  "map_sum id (\<lambda>r. (score r, semantic_similarity r))
     (evaluate True (evaluator_with opposed_encoder) ''q'' ''good'' ''bad'' 5 None) =
   Inr (- (63 / 100), - 1)"
proof -
  have l: "loaded (evaluator_with opposed_encoder)" by (simp add: evaluator_with_def)
  have n: "strip ''bad'' \<noteq> []" by (simp add: strip_bad)
  have m: "model (evaluator_with opposed_encoder) \<noteq> None" by (simp add: evaluator_with_def)
  have f: "\<not> fallback_used True (evaluator_with opposed_encoder) ''q'' ''good'' ''bad'' 5 None"
    by (simp add: fallback_used_def bert_good_bad m)
  show ?thesis
    unfolding evaluate_nonblank [OF l n] using f by (simp add: bert_good_bad)
qed


lemma evaluate_fallback_case:
  assumes "loaded self" and "strip ua \<noteq> []" and "fallback_used ta self q ca ua mm cr"
  shows "evaluate ta self q ca ua mm cr = Inr (evaluate_fallback q ca ua mm cr)"
  using assms by (simp add: evaluate_nonblank)

lemma evaluate_embedding_case:
  assumes "loaded self" and "strip ua \<noteq> []" and "\<not> fallback_used ta self q ca ua mm cr"
  obtains r where "ta" and "model self \<noteq> None"
    and "evaluate_with_bert ta self q ca ua mm cr = Inr r"
    and "evaluate ta self q ca ua mm cr = Inr r"
proof -
  from assms(3) have t: "ta" and m: "model self \<noteq> None"
    and i: "\<not> isl (evaluate_with_bert ta self q ca ua mm cr)"
    by (auto simp: fallback_used_def split: if_splits)
  from i obtain r where r: "evaluate_with_bert ta self q ca ua mm cr = Inr r"
    by (cases "evaluate_with_bert ta self q ca ua mm cr") auto
  have "evaluate ta self q ca ua mm cr = Inr r"
    using assms r by (simp add: evaluate_nonblank)
  with t m r show ?thesis by (rule that)
qed

text \<open>
  C3 (as amended). The confidence of a non-empty evaluation is at most 95; on the
  embedding path it is at least 10; on the fallback path it is \<open>min (score * 80) 85\<close>, hence
  between 0 and 85, with no floor at 10.
\<close>

theorem confidence_range:
  assumes "loaded self" and "strip user_answer \<noteq> []"
  shows "\<exists>r. evaluate TRANSFORMERS_AVAILABLE self question correct_answer user_answer
                max_marks criteria = Inr r
             \<and> confidence r \<le> 95
             \<and> (if fallback_used TRANSFORMERS_AVAILABLE self question correct_answer
                      user_answer max_marks criteria
                 then 0 \<le> confidence r \<and> confidence r \<le> 85
                      \<and> confidence r = min (score r * 80) 85
                 else 10 \<le> confidence r)"
proof (cases "fallback_used TRANSFORMERS_AVAILABLE self question correct_answer user_answer
    max_marks criteria")
  case True
  have e: "evaluate TRANSFORMERS_AVAILABLE self question correct_answer user_answer
             max_marks criteria =
           Inr (evaluate_fallback question correct_answer user_answer max_marks criteria)"
    using assms True by (rule evaluate_fallback_case)
  have "confidence (evaluate_fallback question correct_answer user_answer max_marks criteria)
          \<le> 80"
    by (rule fallback_confidence_bounds)
  then show ?thesis
    using True e
      fallback_confidence_bounds(1) [of question correct_answer user_answer max_marks criteria]
      fallback_confidence_eq [of question correct_answer user_answer max_marks criteria]
    by auto
next
  case False
  with assms obtain r where t: "TRANSFORMERS_AVAILABLE" and m: "model self \<noteq> None"
    and b: "evaluate_with_bert TRANSFORMERS_AVAILABLE self question correct_answer user_answer
              max_marks criteria = Inr r"
    and e: "evaluate TRANSFORMERS_AVAILABLE self question correct_answer user_answer
              max_marks criteria = Inr r"
    by (rule evaluate_embedding_case)
  have "confidence r =
          calculate_confidence TRANSFORMERS_AVAILABLE self (semantic_similarity r)
            (detailed_analysis r) (length user_answer)"
    using b by (rule evaluate_with_bert_result)
  then show ?thesis
    using False e calculate_confidence_bounds [OF t m]
    by auto
qed

theorem confidence_range_witness:
  "loaded (evaluator_with opposed_encoder) \<and> strip ''bad'' \<noteq> [] \<and>
   (\<exists>r. evaluate True (evaluator_with opposed_encoder) ''q'' ''good'' ''bad'' 5 None = Inr r
       \<and> confidence r \<le> 95
       \<and> (if fallback_used True (evaluator_with opposed_encoder) ''q'' ''good'' ''bad'' 5 None
           then 0 \<le> confidence r \<and> confidence r \<le> 85 \<and> confidence r = min (score r * 80) 85
           else 10 \<le> confidence r))"
proof -
  have l: "loaded (evaluator_with opposed_encoder)" by (simp add: evaluator_with_def)
  have n: "strip ''bad'' \<noteq> []" by (simp add: strip_bad)
  show ?thesis
    using l n confidence_range [OF l n, of True "''q''" "''good''" 5 None]
    by simp
qed

theorem confidence_floor_counterexample:
  "fallback_used True no_model_evaluator ''q'' ''cat'' ''x'' 5 None \<and>
   map_sum id confidence (evaluate True no_model_evaluator ''q'' ''cat'' ''x'' 5 None) = Inr 8"
proof -
  have l: "loaded no_model_evaluator" by (simp add: no_model_evaluator_def)
  have n: "strip ''x'' \<noteq> []" by (simp add: strip_x)
  have f: "fallback_used True no_model_evaluator ''q'' ''cat'' ''x'' 5 None"
    by (simp add: fallback_used_def no_model_evaluator_def)
  show ?thesis
    unfolding evaluate_nonblank [OF l n] using f by (simp add: fallback_cat_x)
qed


subsection \<open>Score composition\<close>

lemma analysis_length_ratio:
  "length_ratio (analyze_answer_components q ca ua) =
     Some (real (length ua) / real (max (length ca) 1))"
  unfolding analyze_answer_components_def Let_def by (simp only: analysis.select_convs)

lemma calculate_final_score_steps:
  "calculate_final_score s a cr =
     min (spec_weighted_steps s (keyword_coverage a) (get_or (length_ratio a) 1)
            (semantic_coherence a)) 1"
  by (simp add: calculate_final_score_def spec_weighted_steps_def Let_def)

lemma calculate_final_score_criteria:
  "calculate_final_score s a cr' = calculate_final_score s a cr"
  unfolding calculate_final_score_def by (rule refl)

lemma evaluate_with_bert_criteria:
  "evaluate_with_bert ta self q ca ua mm cr' = evaluate_with_bert ta self q ca ua mm cr"
  unfolding evaluate_with_bert_def calculate_final_score_criteria [of _ _ cr' cr]
  by (rule refl)

lemma evaluate_fallback_criteria:
  "evaluate_fallback q ca ua mm cr' = evaluate_fallback q ca ua mm cr"
  unfolding evaluate_fallback_def by (rule refl)

lemma evaluate_criteria:
  "evaluate ta self q ca ua mm cr' = evaluate ta self q ca ua mm cr"
  unfolding evaluate_def
    evaluate_with_bert_criteria [of ta self q ca ua mm cr' cr]
    evaluate_fallback_criteria [of q ca ua mm cr' cr]
  by (rule refl)

text \<open>
  C4 (as amended). On the embedding path the returned score is the specification's
  pipeline applied to the returned similarity and analysis, whenever the value of the
  weighted steps is not negative; on the fallback path the returned score is the
  similarity capped at 1, without the keyword, length and coherence steps. The criteria
  have no effect on the result.
\<close>

theorem score_composition:
  assumes "loaded self" and "strip user_answer \<noteq> []"
    and "evaluate TRANSFORMERS_AVAILABLE self question correct_answer user_answer max_marks
           criteria = Inr r"
  shows "(if fallback_used TRANSFORMERS_AVAILABLE self question correct_answer user_answer
               max_marks criteria
          then score r = min (semantic_similarity r) 1
          else (0 \<le> spec_weighted_steps (semantic_similarity r)
                      (keyword_coverage (detailed_analysis r))
                      (real (length user_answer) / real (max (length correct_answer) 1))
                      (semantic_coherence (detailed_analysis r))
                \<longrightarrow> score r =
                      spec_final_score (semantic_similarity r)
                        (keyword_coverage (detailed_analysis r))
                        (real (length user_answer) / real (max (length correct_answer) 1))
                        (semantic_coherence (detailed_analysis r))))
         \<and> evaluate TRANSFORMERS_AVAILABLE self question correct_answer user_answer max_marks
               criteria' = Inr r"
proof (cases "fallback_used TRANSFORMERS_AVAILABLE self question correct_answer user_answer
    max_marks criteria")
  case True
  have "evaluate TRANSFORMERS_AVAILABLE self question correct_answer user_answer
             max_marks criteria =
           Inr (evaluate_fallback question correct_answer user_answer max_marks criteria)"
    using assms(1,2) True by (rule evaluate_fallback_case)
  with assms(3) have "r = evaluate_fallback question correct_answer user_answer max_marks criteria"
    by simp
  then have sc: "score r = min (semantic_similarity r) 1"
    by (simp only: fallback_score_eq)
  have cr: "evaluate TRANSFORMERS_AVAILABLE self question correct_answer user_answer max_marks
               criteria' = Inr r"
    unfolding evaluate_criteria [of _ _ _ _ _ _ criteria' criteria] by (rule assms(3))
  show ?thesis using True sc cr by simp
next
  case False
  with assms(1,2) obtain r' where
    b: "evaluate_with_bert TRANSFORMERS_AVAILABLE self question correct_answer user_answer
              max_marks criteria = Inr r'"
    and e: "evaluate TRANSFORMERS_AVAILABLE self question correct_answer user_answer
              max_marks criteria = Inr r'"
    by (rule evaluate_embedding_case)
  from e assms(3) have rr: "r' = r" by simp
  have a: "detailed_analysis r = analyze_answer_components question correct_answer user_answer"
    using b unfolding rr by (rule evaluate_with_bert_result)
  have s: "score r = calculate_final_score (semantic_similarity r) (detailed_analysis r) criteria"
    using b unfolding rr by (rule evaluate_with_bert_result)
  have lr: "get_or (length_ratio (detailed_analysis r)) 1 =
              real (length user_answer) / real (max (length correct_answer) 1)"
    unfolding a analysis_length_ratio by (simp add: get_or_def)
  define W where "W = spec_weighted_steps (semantic_similarity r)
                 (keyword_coverage (detailed_analysis r))
                 (real (length user_answer) / real (max (length correct_answer) 1))
                 (semantic_coherence (detailed_analysis r))"
  have sc: "score r = min W 1"
    unfolding s calculate_final_score_steps lr W_def by (rule refl)
  have sp: "spec_final_score (semantic_similarity r)
                 (keyword_coverage (detailed_analysis r))
                 (real (length user_answer) / real (max (length correct_answer) 1))
                 (semantic_coherence (detailed_analysis r)) = max 0 (min 1 W)"
    unfolding spec_final_score_def W_def by (rule refl)
  have im: "0 \<le> W \<longrightarrow> score r = max 0 (min 1 W)"
    unfolding sc by (simp add: min_def max_def)
  have cr: "evaluate TRANSFORMERS_AVAILABLE self question correct_answer user_answer max_marks
               criteria' = Inr r"
    unfolding evaluate_criteria [of _ _ _ _ _ _ criteria' criteria] by (rule assms(3))
  show ?thesis
    unfolding sp using False im cr unfolding W_def by simp
qed


lemma strip_red_green: "strip ''red green'' = ''red green''"
  by (simp add: strip_def isspace_def)

lemma analysis_red_green:
  "analyze_answer_components ''q'' ''red green blue'' ''red green'' =
     \<lparr>length_analysis = ''Answer length is appropriate'',
      length_ratio = Some (9 / 14), keyword_coverage = 2 / 3,
      keywords_found = Some [''red'', ''green''],
      keywords_missing = Some [''blue''], semantic_coherence = 0,
      word_overlap = None, total_keywords = None\<rparr>"
  by code_simp

lemma bert_red_green:
  "evaluate_with_bert True (evaluator_with aligned_encoder) ''q'' ''red green blue''
     ''red green'' 5 cr =
     Inr \<lparr>score = 81 / 100, confidence = 872 / 15,
          feedback = ''Good answer! You show a solid grasp of the main ideas.'',
          semantic_similarity = 1,
          detailed_analysis = analyze_answer_components ''q'' ''red green blue'' ''red green''\<rparr>"
proof -
  have m: "model (evaluator_with aligned_encoder) = Some aligned_encoder"
    by (simp add: evaluator_with_def)
  have e: "aligned_encoder [''red green blue'', ''red green''] = Inr [[1], [1]]"
    by (simp add: aligned_encoder_def)
  have s: "calculate_final_score 1
             (analyze_answer_components ''q'' ''red green blue'' ''red green'') cr = 81 / 100"
    unfolding analysis_red_green by (simp add: calculate_final_score_def get_or_def)
  have c: "calculate_confidence True (evaluator_with aligned_encoder) 1
             (analyze_answer_components ''q'' ''red green blue'' ''red green'')
             (length ''red green'') = 872 / 15"
    unfolding analysis_red_green by (simp add: calculate_confidence_def m)
  have f: "generate_feedback (81 / 100) 1
             (analyze_answer_components ''q'' ''red green blue'' ''red green'') =
             ''Good answer! You show a solid grasp of the main ideas.''"
    unfolding analysis_red_green
    by (simp add: generate_feedback_def overall_assessment_def get_or_def)
  show ?thesis
    unfolding evaluate_with_bert_encoded [OF m e cosine_aligned] s c f by (rule refl)
qed

lemma evaluate_red_green:
  "\<not> fallback_used True (evaluator_with aligned_encoder) ''q'' ''red green blue''
       ''red green'' 5 cr"
  "evaluate True (evaluator_with aligned_encoder) ''q'' ''red green blue'' ''red green'' 5 cr =
     Inr \<lparr>score = 81 / 100, confidence = 872 / 15,
          feedback = ''Good answer! You show a solid grasp of the main ideas.'',
          semantic_similarity = 1,
          detailed_analysis = analyze_answer_components ''q'' ''red green blue'' ''red green''\<rparr>"
proof -
  have l: "loaded (evaluator_with aligned_encoder)" by (simp add: evaluator_with_def)
  have n: "strip ''red green'' \<noteq> []" by (simp add: strip_red_green)
  have m: "model (evaluator_with aligned_encoder) \<noteq> None" by (simp add: evaluator_with_def)
  show f: "\<not> fallback_used True (evaluator_with aligned_encoder) ''q'' ''red green blue''
       ''red green'' 5 cr"
    by (simp add: fallback_used_def bert_red_green m)
  show "evaluate True (evaluator_with aligned_encoder) ''q'' ''red green blue'' ''red green'' 5 cr =
     Inr \<lparr>score = 81 / 100, confidence = 872 / 15,
          feedback = ''Good answer! You show a solid grasp of the main ideas.'',
          semantic_similarity = 1,
          detailed_analysis = analyze_answer_components ''q'' ''red green blue'' ''red green''\<rparr>"
    unfolding evaluate_nonblank [OF l n] using f by (simp add: bert_red_green)
qed

lemma evaluate_good_bad:
  "evaluate True (evaluator_with opposed_encoder) ''q'' ''good'' ''bad'' 5 None =
     Inr \<lparr>score = - (63 / 100), confidence = 10,
          feedback = generate_feedback (- (63 / 100)) (- 1)
                       (analyze_answer_components ''q'' ''good'' ''bad''),
          semantic_similarity = - 1,
          detailed_analysis = analyze_answer_components ''q'' ''good'' ''bad''\<rparr>"
proof -
  have l: "loaded (evaluator_with opposed_encoder)" by (simp add: evaluator_with_def)
  have n: "strip ''bad'' \<noteq> []" by (simp add: strip_bad)
  have m: "model (evaluator_with opposed_encoder) \<noteq> None" by (simp add: evaluator_with_def)
  have f: "\<not> fallback_used True (evaluator_with opposed_encoder) ''q'' ''good'' ''bad'' 5 None"
    by (simp add: fallback_used_def bert_good_bad m)
  show ?thesis
    unfolding evaluate_nonblank [OF l n] using f by (simp add: bert_good_bad)
qed

lemma evaluate_cat_x:
  "fallback_used True no_model_evaluator ''q'' ''cat'' ''x'' 5 None"
  "evaluate True no_model_evaluator ''q'' ''cat'' ''x'' 5 None =
     Inr (evaluate_fallback ''q'' ''cat'' ''x'' 5 None)"
proof -
  have l: "loaded no_model_evaluator" by (simp add: no_model_evaluator_def)
  have n: "strip ''x'' \<noteq> []" by (simp add: strip_x)
  show f: "fallback_used True no_model_evaluator ''q'' ''cat'' ''x'' 5 None"
    by (simp add: fallback_used_def no_model_evaluator_def)
  show "evaluate True no_model_evaluator ''q'' ''cat'' ''x'' 5 None =
     Inr (evaluate_fallback ''q'' ''cat'' ''x'' 5 None)"
    using l n f by (rule evaluate_fallback_case)
qed

theorem score_composition_witness:
  "loaded (evaluator_with aligned_encoder) \<and> strip ''red green'' \<noteq> [] \<and>
   evaluate True (evaluator_with aligned_encoder) ''q'' ''red green blue'' ''red green'' 5 None =
     Inr \<lparr>score = 81 / 100, confidence = 872 / 15,
          feedback = ''Good answer! You show a solid grasp of the main ideas.'',
          semantic_similarity = 1,
          detailed_analysis = analyze_answer_components ''q'' ''red green blue'' ''red green''\<rparr> \<and>
   \<not> fallback_used True (evaluator_with aligned_encoder) ''q'' ''red green blue''
       ''red green'' 5 None \<and>
   0 \<le> spec_weighted_steps 1 (2 / 3) (9 / 14) 0 \<and>
   81 / 100 = spec_final_score 1 (2 / 3) (9 / 14) 0 \<and>
   evaluate True (evaluator_with aligned_encoder) ''q'' ''red green blue'' ''red green'' 5
     (Some [''accuracy'']) =
     Inr \<lparr>score = 81 / 100, confidence = 872 / 15,
          feedback = ''Good answer! You show a solid grasp of the main ideas.'',
          semantic_similarity = 1,
          detailed_analysis = analyze_answer_components ''q'' ''red green blue'' ''red green''\<rparr>"
proof -
  have l: "loaded (evaluator_with aligned_encoder)" by (simp add: evaluator_with_def)
  have n: "strip ''red green'' \<noteq> []" by (simp add: strip_red_green)
  have w: "0 \<le> spec_weighted_steps 1 (2 / 3) (9 / 14) 0"
    by (simp add: spec_weighted_steps_def)
  note t = score_composition [OF l n evaluate_red_green(2) [of None], of "Some [''accuracy'']"]
  show ?thesis
    using l n w t evaluate_red_green(1) [of None] evaluate_red_green(2) [of None]
    by (simp add: analysis_red_green)
qed

theorem score_composition_counterexample:
  "evaluate True no_model_evaluator ''q'' ''cat'' ''x'' 5 None =
     Inr (evaluate_fallback ''q'' ''cat'' ''x'' 5 None) \<and>
   score (evaluate_fallback ''q'' ''cat'' ''x'' 5 None) = 1 / 10 \<and>
   spec_final_score
     (semantic_similarity (evaluate_fallback ''q'' ''cat'' ''x'' 5 None))
     (keyword_coverage (detailed_analysis (evaluate_fallback ''q'' ''cat'' ''x'' 5 None)))
     (real (length ''x'') / real (max (length ''cat'') 1))
     (semantic_coherence (detailed_analysis (evaluate_fallback ''q'' ''cat'' ''x'' 5 None)))
     = 73 / 1000 \<and>
   map_sum id score
     (evaluate True (evaluator_with opposed_encoder) ''q'' ''good'' ''bad'' 5 None) =
     Inr (- (63 / 100)) \<and>
   spec_final_score (- 1) 0 (real (length ''bad'') / real (max (length ''good'') 1)) 0 = 0"
proof -
  have a: "spec_final_score (1 / 10) 0 (1 / 3) (1 / 10) = 73 / 1000"
    by (simp add: spec_final_score_def spec_weighted_steps_def)
  have b: "spec_final_score (- 1) 0 (3 / 4) 0 = 0"
    by (simp add: spec_final_score_def spec_weighted_steps_def)
  show ?thesis
    using a b by (simp add: evaluate_cat_x(2) fallback_cat_x evaluate_good_bad)
qed


subsection \<open>Feedback bands\<close>

lemma prefix_join: "prefix x (join sep (x # xs))"
  by (cases xs) simp_all

lemma generate_feedback_parts:
  "\<exists>rest. generate_feedback s sim a = join '' '' (overall_assessment s # rest)"
  unfolding generate_feedback_def Let_def
  by (simp only: append_Cons append_Nil if_distrib [of "\<lambda>ps. join '' '' ps"] split: if_split)
    blast

lemma generate_feedback_prefix: "prefix (overall_assessment s) (generate_feedback s sim a)"
proof -
  obtain rest where "generate_feedback s sim a = join '' '' (overall_assessment s # rest)"
    using generate_feedback_parts by blast
  then show ?thesis by (simp only: prefix_join)
qed

lemma strip_red_green_blue: "strip ''red green blue'' = ''red green blue''"
  by (simp add: strip_def isspace_def)

text \<open>
  C8 (as amended). The feedback of a non-empty evaluation starts with the band sentence
  of its path: with the excellent sentence when the score is at least 0.9 on the
  embedding path, or at least 0.8 on the fallback path; with the needs-improvement
  sentence when the score is below 0.4, on either path.
\<close>

theorem feedback_band:
  assumes "loaded self" and "strip user_answer \<noteq> []"
    and "evaluate TRANSFORMERS_AVAILABLE self question correct_answer user_answer max_marks
           criteria = Inr r"
  shows "(if fallback_used TRANSFORMERS_AVAILABLE self question correct_answer user_answer
               max_marks criteria
          then (0.8 \<le> score r \<longrightarrow>
                  prefix ''Excellent answer! Shows comprehensive understanding.'' (feedback r))
             \<and> (score r < 0.4 \<longrightarrow>
                  prefix ''Answer needs significant improvement. Please review the topic.''
                    (feedback r))
          else (0.9 \<le> score r \<longrightarrow>
                  prefix
                    ''Excellent answer! You demonstrate a thorough understanding of the concept.''
                    (feedback r))
             \<and> (score r < 0.4 \<longrightarrow>
                  prefix
                    ''Your answer needs improvement. Please review the topic more carefully.''
                    (feedback r)))"
proof (cases "fallback_used TRANSFORMERS_AVAILABLE self question correct_answer user_answer
    max_marks criteria")
  case True
  have "evaluate TRANSFORMERS_AVAILABLE self question correct_answer user_answer
             max_marks criteria =
           Inr (evaluate_fallback question correct_answer user_answer max_marks criteria)"
    using assms(1,2) True by (rule evaluate_fallback_case)
  with assms(3) have "r = evaluate_fallback question correct_answer user_answer max_marks criteria"
    by simp
  then have f: "feedback r = fallback_feedback (score r)"
    by (simp only: fallback_feedback_eq)
  have hi: "0.8 \<le> score r \<longrightarrow>
              prefix ''Excellent answer! Shows comprehensive understanding.'' (feedback r)"
    unfolding f fallback_feedback_def by simp
  have lo: "score r < 0.4 \<longrightarrow>
              prefix ''Answer needs significant improvement. Please review the topic.''
                (feedback r)"
    unfolding f fallback_feedback_def by simp
  show ?thesis using True hi lo by simp
next
  case False
  with assms(1,2) obtain r' where
    b: "evaluate_with_bert TRANSFORMERS_AVAILABLE self question correct_answer user_answer
              max_marks criteria = Inr r'"
    and e: "evaluate TRANSFORMERS_AVAILABLE self question correct_answer user_answer
              max_marks criteria = Inr r'"
    by (rule evaluate_embedding_case)
  from e assms(3) have rr: "r' = r" by simp
  have "feedback r = generate_feedback (score r) (semantic_similarity r) (detailed_analysis r)"
    using b unfolding rr by (rule evaluate_with_bert_result)
  then have p: "prefix (overall_assessment (score r)) (feedback r)"
    by (simp only: generate_feedback_prefix)
  have hi: "0.9 \<le> score r \<longrightarrow>
              prefix
                ''Excellent answer! You demonstrate a thorough understanding of the concept.''
                (feedback r)"
  proof
    assume "0.9 \<le> score r"
    then have "overall_assessment (score r) =
      ''Excellent answer! You demonstrate a thorough understanding of the concept.''"
      by (simp add: overall_assessment_def)
    with p show "prefix
                ''Excellent answer! You demonstrate a thorough understanding of the concept.''
                (feedback r)" by simp
  qed
  have lo: "score r < 0.4 \<longrightarrow>
              prefix
                ''Your answer needs improvement. Please review the topic more carefully.''
                (feedback r)"
  proof
    assume "score r < 0.4"
    then have "overall_assessment (score r) =
      ''Your answer needs improvement. Please review the topic more carefully.''"
      by (simp add: overall_assessment_def)
    with p show "prefix
                ''Your answer needs improvement. Please review the topic more carefully.''
                (feedback r)" by simp
  qed
  show ?thesis using False hi lo by simp
qed

theorem feedback_band_counterexample:
  "map_sum id (\<lambda>r. (score r, feedback r))
     (evaluate True (evaluator_with aligned_encoder) ''q'' ''red green blue'' ''red green'' 5
        None) =
   Inr (81 / 100, ''Good answer! You show a solid grasp of the main ideas.'')"
  by (simp add: evaluate_red_green(2))

lemma analysis_red_green_same:
  "analyze_answer_components ''q'' ''red green'' ''red green'' =
     \<lparr>length_analysis = ''Answer length is appropriate'',
      length_ratio = Some 1, keyword_coverage = 1,
      keywords_found = Some [''red'', ''green''],
      keywords_missing = Some [], semantic_coherence = 0,
      word_overlap = None, total_keywords = None\<rparr>"
  by code_simp

lemma evaluate_red_green_same:
  "\<not> fallback_used True (evaluator_with aligned_encoder) ''q'' ''red green'' ''red green'' 5
       None"
  "evaluate True (evaluator_with aligned_encoder) ''q'' ''red green'' ''red green'' 5 None =
     Inr \<lparr>score = 9 / 10, confidence = 324 / 5,
          feedback =
            ''Excellent answer! You demonstrate a thorough understanding of the concept.'',
          semantic_similarity = 1,
          detailed_analysis = analyze_answer_components ''q'' ''red green'' ''red green''\<rparr>"
proof -
  have l: "loaded (evaluator_with aligned_encoder)" by (simp add: evaluator_with_def)
  have n: "strip ''red green'' \<noteq> []" by (simp add: strip_red_green)
  have m: "model (evaluator_with aligned_encoder) = Some aligned_encoder"
    by (simp add: evaluator_with_def)
  have e: "aligned_encoder [''red green'', ''red green''] = Inr [[1], [1]]"
    by (simp add: aligned_encoder_def)
  have s: "calculate_final_score 1
             (analyze_answer_components ''q'' ''red green'' ''red green'') None = 9 / 10"
    unfolding analysis_red_green_same by (simp add: calculate_final_score_def get_or_def)
  have c: "calculate_confidence True (evaluator_with aligned_encoder) 1
             (analyze_answer_components ''q'' ''red green'' ''red green'')
             (length ''red green'') = 324 / 5"
    unfolding analysis_red_green_same by (simp add: calculate_confidence_def m)
  have f: "generate_feedback (9 / 10) 1
             (analyze_answer_components ''q'' ''red green'' ''red green'') =
             ''Excellent answer! You demonstrate a thorough understanding of the concept.''"
    unfolding analysis_red_green_same
    by (simp add: generate_feedback_def overall_assessment_def get_or_def)
  have b: "evaluate_with_bert True (evaluator_with aligned_encoder) ''q'' ''red green''
     ''red green'' 5 None =
     Inr \<lparr>score = 9 / 10, confidence = 324 / 5,
          feedback =
            ''Excellent answer! You demonstrate a thorough understanding of the concept.'',
          semantic_similarity = 1,
          detailed_analysis = analyze_answer_components ''q'' ''red green'' ''red green''\<rparr>"
    unfolding evaluate_with_bert_encoded [OF m e cosine_aligned] s c f by (rule refl)
  have m': "model (evaluator_with aligned_encoder) \<noteq> None" by (simp add: m)
  show g: "\<not> fallback_used True (evaluator_with aligned_encoder) ''q'' ''red green''
       ''red green'' 5 None"
    by (simp add: fallback_used_def b m')
  show "evaluate True (evaluator_with aligned_encoder) ''q'' ''red green'' ''red green'' 5 None =
     Inr \<lparr>score = 9 / 10, confidence = 324 / 5,
          feedback =
            ''Excellent answer! You demonstrate a thorough understanding of the concept.'',
          semantic_similarity = 1,
          detailed_analysis = analyze_answer_components ''q'' ''red green'' ''red green''\<rparr>"
    unfolding evaluate_nonblank [OF l n] using g by (simp add: b)
qed

theorem feedback_band_witness:
  "loaded (evaluator_with aligned_encoder) \<and> strip ''red green'' \<noteq> [] \<and>
   \<not> fallback_used True (evaluator_with aligned_encoder) ''q'' ''red green'' ''red green'' 5
       None \<and>
   map_sum id score
     (evaluate True (evaluator_with aligned_encoder) ''q'' ''red green'' ''red green'' 5 None) =
     Inr (9 / 10) \<and>
   (0.9 :: real) \<le> 9 / 10 \<and>
   prefix ''Excellent answer! You demonstrate a thorough understanding of the concept.''
     ''Excellent answer! You demonstrate a thorough understanding of the concept.'' \<and>
   loaded no_model_evaluator \<and> strip ''x'' \<noteq> [] \<and>
   fallback_used True no_model_evaluator ''q'' ''cat'' ''x'' 5 None \<and>
   evaluate True no_model_evaluator ''q'' ''cat'' ''x'' 5 None =
     Inr (evaluate_fallback ''q'' ''cat'' ''x'' 5 None) \<and>
   score (evaluate_fallback ''q'' ''cat'' ''x'' 5 None) < 0.4 \<and>
   prefix ''Answer needs significant improvement. Please review the topic.''
     (feedback (evaluate_fallback ''q'' ''cat'' ''x'' 5 None))"
proof -
  have l: "loaded (evaluator_with aligned_encoder)" by (simp add: evaluator_with_def)
  have n: "strip ''red green'' \<noteq> []" by (simp add: strip_red_green)
  have l': "loaded no_model_evaluator" by (simp add: no_model_evaluator_def)
  have n': "strip ''x'' \<noteq> []" by (simp add: strip_x)
  have s: "score (evaluate_fallback ''q'' ''cat'' ''x'' 5 None) < 0.4"
    by (simp add: fallback_cat_x)
  note a = feedback_band [OF l n evaluate_red_green_same(2)]
  note b = feedback_band [OF l' n' evaluate_cat_x(2)]
  show ?thesis
    using l n l' n' s a b evaluate_red_green_same(1) evaluate_cat_x
    by (simp add: evaluate_red_green_same(2))
qed


subsection \<open>Where the embedding path can fail\<close>

text \<open>
  The stages after the embedding step (analysis, score, feedback, confidence) are total:
  when the embedding path raises, the exception comes from the model access, the
  encoding, the row access or the cosine.
\<close>

lemma embedding_path_failure_is_embedding_step:
  assumes "evaluate_with_bert ta self q ca ua mm cr = Inl e"
  shows "model self = None
    \<or> (\<exists>encode. model self = Some encode
         \<and> (encode [ca, ua] = Inl e
            \<or> (\<exists>embeddings. encode [ca, ua] = Inr embeddings
                 \<and> (row embeddings 0 = Inl e \<or> row embeddings 1 = Inl e
                    \<or> (\<exists>e0 e1. row embeddings 0 = Inr e0 \<and> row embeddings 1 = Inr e1
                         \<and> cosine_similarity e0 e1 = Inl e)))))"
  using assms
  by (auto simp: evaluate_with_bert_def Let_def split: option.splits sum.splits)

lemma embedding_step_success_returns:
  assumes "model self = Some encode" and "encode [ca, ua] = Inr [e0, e1]"
    and "cosine_similarity e0 e1 = Inr s"
  shows "\<not> isl (evaluate_with_bert ta self q ca ua mm cr)"
  using evaluate_with_bert_encoded [OF assms] by simp

subsection \<open>Important terms\<close>

lemma important_terms_subseq: "subseq (important_terms sw ws) ws"
  by (induction sw ws rule: important_terms.induct) auto

lemma important_terms_member:
  "w \<in> set (important_terms sw ws) \<Longrightarrow> 2 < length w \<and> w \<notin> sw"
  by (induction sw ws rule: important_terms.induct) (auto split: if_splits)

lemma unique_terms_subseq: "subseq (unique_terms seen xs) xs"
  by (induction xs arbitrary: seen) auto

lemma unique_terms_set: "set (unique_terms seen xs) = set xs - seen"
  by (induction xs arbitrary: seen) auto

lemma unique_terms_distinct: "distinct (unique_terms seen xs)"
  by (induction xs arbitrary: seen) (auto simp: unique_terms_set)

text \<open>Each term is kept at its first occurrence.\<close>

lemma unique_terms_first_seen:
  "unique_terms seen xs = rev (remdups (rev (filter (\<lambda>x. x \<notin> seen) xs)))"
proof (induction xs arbitrary: seen)
  case Nil
  then show ?case by simp
next
  case (Cons x xs)
  show ?case
  proof (cases "x \<in> seen")
    case True
    then show ?thesis by (simp add: Cons.IH)
  next
    case False
    have "remdups (rev (filter (\<lambda>y. y \<notin> seen) xs) @ [x]) =
          remdups (rev (filter (\<lambda>y. y \<notin> insert x seen) xs)) @ [x]"
    proof -
      have f: "filter (\<lambda>y. y \<notin> insert x seen) xs =
               filter (\<lambda>y. y \<noteq> x) (filter (\<lambda>y. y \<notin> seen) xs)"
        by (induction xs) auto
      have g: "remdups (ys @ [x]) = remdups (filter (\<lambda>y. y \<noteq> x) ys) @ [x]" for ys :: "string list"
        by (induction ys) auto
      have r: "rev (filter (\<lambda>y. y \<noteq> x) (filter (\<lambda>y. y \<notin> seen) xs)) =
               filter (\<lambda>y. y \<noteq> x) (rev (filter (\<lambda>y. y \<notin> seen) xs))"
        by (rule rev_filter)
      show ?thesis unfolding f r by (rule g)
    qed
    with False show ?thesis by (simp add: Cons.IH)
  qed
qed

lemma extract_important_terms_sound:
  "length (extract_important_terms sw text) \<le> 10"
  "distinct (extract_important_terms sw text)"
  "subseq (extract_important_terms sw text) (split_ws (preprocess sw text False))"
  "w \<in> set (extract_important_terms sw text) \<Longrightarrow> 2 < length w \<and> w \<notin> sw"
proof -
  show "length (extract_important_terms sw text) \<le> 10"
    by (simp add: extract_important_terms_def Let_def)
  show "distinct (extract_important_terms sw text)"
    by (simp add: extract_important_terms_def Let_def unique_terms_distinct)
  have a: "subseq (take 10 (unique_terms {} (important_terms sw (split_ws (preprocess sw text False)))))
          (unique_terms {} (important_terms sw (split_ws (preprocess sw text False))))"
    by (rule prefix_imp_subseq [OF take_is_prefix])
  have b: "subseq (unique_terms {} (important_terms sw (split_ws (preprocess sw text False))))
          (important_terms sw (split_ws (preprocess sw text False)))"
    by (rule unique_terms_subseq)
  have c: "subseq (important_terms sw (split_ws (preprocess sw text False)))
          (split_ws (preprocess sw text False))"
    by (rule important_terms_subseq)
  have "subseq (take 10 (unique_terms {} (important_terms sw (split_ws (preprocess sw text False)))))
          (split_ws (preprocess sw text False))"
    by (rule subseq_order.order_trans [OF a subseq_order.order_trans [OF b c]])
  then show "subseq (extract_important_terms sw text) (split_ws (preprocess sw text False))"
    by (simp add: extract_important_terms_def Let_def)
  show "2 < length w \<and> w \<notin> sw" if "w \<in> set (extract_important_terms sw text)"
  proof -
    from that have "w \<in> set (take 10
        (unique_terms {} (important_terms sw (split_ws (preprocess sw text False)))))"
      unfolding extract_important_terms_def Let_def
      by (cases "text = []") simp_all
    then have "w \<in> set (unique_terms {} (important_terms sw (split_ws (preprocess sw text False))))"
      by (rule in_set_takeD)
    then have "w \<in> set (important_terms sw (split_ws (preprocess sw text False)))"
      by (simp add: unique_terms_set)
    then show ?thesis by (rule important_terms_member)
  qed
qed

text \<open>
  C9. The word \<open>Time\<close> is written with an uppercase letter and is no stop word, yet it is
  not returned: the text is lowercased before the loop tests for an uppercase letter, so
  a token of three or four letters in the common-word set is dropped.
\<close>

theorem uppercase_common_word_dropped:
  "list_ex isupper ''Time'' \<and> ''time'' \<notin> default_stop_words \<and>
   extract_important_terms default_stop_words ''Time'' = []"
  by code_simp



subsection \<open>The uppercase test after lowercasing\<close>

lemma isupper_lower_char: "\<not> isupper (lower_char c)"
proof (cases "isupper c")
  case False
  then show ?thesis by (simp add: lower_char_def)
next
  case True
  define n where "n = (of_char c :: nat)"
  from True have r: "(65 \<le> n \<and> n \<le> 90) \<or> (192 \<le> n \<and> n \<le> 214) \<or> (216 \<le> n \<and> n \<le> 222)"
    by (simp add: isupper_def n_def Let_def)
  then have m: "(n + 32) mod 256 = n + 32" by auto
  have "of_char (lower_char c) = n + 32"
    using True m by (simp add: lower_char_def n_def [symmetric])
  then show ?thesis using r by (auto simp: isupper_def Let_def)
qed

lemma lower_no_upper: "c \<in> set (lower s) \<Longrightarrow> \<not> isupper c"
  by (auto simp: lower_def isupper_lower_char)

lemma set_sub_runs: "set (sub_runs p b s) \<subseteq> insert CHR '' '' (set s)"
  by (induction p b s rule: sub_runs.induct) auto

lemma set_strip: "set (strip s) \<subseteq> set s"
proof
  fix x assume "x \<in> set (strip s)"
  then have "x \<in> set (dropWhile isspace (rev (dropWhile isspace s)))"
    by (simp add: strip_def)
  then have "x \<in> set (rev (dropWhile isspace s))" by (rule set_dropWhileD)
  then have "x \<in> set (dropWhile isspace s)" by simp
  then show "x \<in> set s" by (rule set_dropWhileD)
qed

lemma set_split_from:
  "w \<in> set (split_from cur s) \<Longrightarrow> set w \<subseteq> set cur \<union> set s"
  by (induction cur s rule: split_from.induct) (auto split: if_splits)

lemma set_split_ws: "w \<in> set (split_ws s) \<Longrightarrow> set w \<subseteq> set s"
  using set_split_from [of w "[]" s] by (simp add: split_ws_def)

lemma isupper_space: "\<not> isupper CHR '' ''"
  by (simp add: isupper_def)

lemma preprocess_chars:
  "c \<in> set (preprocess sw text False) \<Longrightarrow> \<not> isupper c"
proof -
  assume c: "c \<in> set (preprocess sw text False)"
  show ?thesis
  proof (cases "text = []")
    case True
    with c show ?thesis by (simp add: preprocess_def)
  next
    case False
    define t1 where "t1 = strip (sub_runs isspace False (lower text))"
    define t2 where "t2 = filter (\<lambda>c. is_word_char c \<or> isspace c \<or> is_basic_punct c) t1"
    define t3 where "t3 = sub_runs is_basic_punct False t2"
    have p: "preprocess sw text False = strip t3"
      using False by (simp add: preprocess_def Let_def t1_def t2_def t3_def)
    have "set t1 \<subseteq> insert CHR '' '' (set (lower text))"
      unfolding t1_def using set_strip set_sub_runs by blast
    moreover have "set t2 \<subseteq> set t1" by (auto simp: t2_def)
    moreover have "set t3 \<subseteq> insert CHR '' '' (set t2)"
      unfolding t3_def by (rule set_sub_runs)
    moreover have "set (strip t3) \<subseteq> set t3" by (rule set_strip)
    ultimately have "c = CHR '' '' \<or> c \<in> set (lower text)"
      using c unfolding p by blast
    then show ?thesis using isupper_space lower_no_upper by blast
  qed
qed

lemma preprocess_token_no_upper:
  assumes "w \<in> set (split_ws (preprocess sw text False))"
  shows "\<not> list_ex isupper w"
proof -
  have "set w \<subseteq> set (preprocess sw text False)" using assms by (rule set_split_ws)
  then show ?thesis using preprocess_chars by (auto simp: list_ex_iff)
qed

lemma important_terms_common_dropped:
  assumes "length w \<le> 4" and "w \<in> get_common_words" and "\<not> list_ex isupper w"
  shows "w \<notin> set (important_terms sw ws)"
  using assms by (induction sw ws rule: important_terms.induct) (auto split: if_splits)

text \<open>
  Hence a token of at most four letters in the common-word set is never returned,
  however it was capitalised in the original text.
\<close>

lemma common_short_word_never_returned:
  assumes "length w \<le> 4" and "w \<in> get_common_words"
  shows "w \<notin> set (extract_important_terms sw text)"
proof
  assume "w \<in> set (extract_important_terms sw text)"
  then have "w \<in> set (take 10
      (unique_terms {} (important_terms sw (split_ws (preprocess sw text False)))))"
    unfolding extract_important_terms_def Let_def
    by (cases "text = []") simp_all
  then have "w \<in> set (unique_terms {} (important_terms sw (split_ws (preprocess sw text False))))"
    by (rule in_set_takeD)
  then have i: "w \<in> set (important_terms sw (split_ws (preprocess sw text False)))"
    by (simp add: unique_terms_set)
  have "subseq (important_terms sw (split_ws (preprocess sw text False)))
          (split_ws (preprocess sw text False))"
    by (rule important_terms_subseq)
  from list_emb_set [OF this i]
  have "w \<in> set (split_ws (preprocess sw text False))" by blast
  then have "\<not> list_ex isupper w" by (rule preprocess_token_no_upper)
  with assms have "w \<notin> set (important_terms sw (split_ws (preprocess sw text False)))"
    by (rule important_terms_common_dropped)
  with i show False by contradiction
qed

end
